theory Spec2Isabelle
  imports Main
begin

section \<open>The descriptors built by cdk/lib/cdk-stack.ts\<close>

text \<open>
  The stack constructor of \<^verbatim>\<open>cdk-stack.ts\<close> creates five constructs inside the
  stack (\<^verbatim>\<open>this\<close>), each under a literal construct id, and hands earlier constructs to
  later ones as property values. A construct is modelled by the properties it was created
  with; an object reference to a construct is modelled by the construct's id inside the
  stack; the stack is the list of its children in creation order.
\<close>

type_synonym ref = string

datatype BucketEncryption = UNENCRYPTED | KMS_MANAGED | S3_MANAGED | KMS

datatype ViewerProtocolPolicy = HTTPS_ONLY | REDIRECT_TO_HTTPS | ALLOW_ALL

record BlockPublicAccess =
  blockPublicAcls :: bool
  blockPublicPolicy :: bool
  ignorePublicAcls :: bool
  restrictPublicBuckets :: bool

record BucketProps =
  encryption :: "BucketEncryption option"
  publicReadAccess :: "bool option"
  websiteIndexDocument :: "string option"
  blockPublicAccess :: "BlockPublicAccess option"

record HostedZoneProviderProps =
  domainName :: string

text \<open>What a zone lookup yields: the zone's name and its resolved identity.\<close>

record HostedZoneRef =
  zoneName :: string
  hostedZoneId :: string

record DnsValidatedCertificateProps =
  cert_domainName :: string
  cert_hostedZone :: ref
  cert_region :: "string option"

datatype Origin = S3Origin ref

record BehaviorOptions =
  origin :: Origin
  viewerProtocolPolicy :: "ViewerProtocolPolicy option"

record DistributionProps =
  defaultBehavior :: BehaviorOptions
  domainNames :: "string list option"
  defaultRootObject :: "string option"
  certificate :: "ref option"

datatype AliasRecordTarget = CloudFrontTarget ref

datatype RecordTarget = fromAlias AliasRecordTarget

record ARecordProps =
  zone :: ref
  recordName :: "string option"
  target :: RecordTarget

datatype construct =
    Bucket BucketProps
  | HostedZone HostedZoneRef
  | DnsValidatedCertificate DnsValidatedCertificateProps
  | Distribution DistributionProps
  | ARecord ARecordProps

text \<open>The scope a stack is created in: the root of the construct tree or a child of a scope.\<close>

datatype Construct = Root | Child Construct string

record Environment =
  account :: "string option"
  region :: "string option"

record StackProps =
  env :: "Environment option"
  stackName :: "string option"

record Stack =
  stack_scope :: Construct
  stack_id :: string
  stack_props :: "StackProps option"
  children :: "(string \<times> construct) list"

text \<open>
  The source has no \<^verbatim>\<open>throw\<close>: a failure of the constructor is an error raised inside a
  library call and not caught. \<open>LibraryError\<close> is such an error, with its message. The
  other three are the error names of the specification's taxonomy; nothing in the source
  raises them.
\<close>

datatype error =
    ZoneNotFound | MissingCertificateForAlias | RecordNameMismatch | LibraryError string

section \<open>Creating constructs\<close>

text \<open>\<^verbatim>\<open>super(scope, id, props)\<close>: a stack without children.\<close>

definition Stack_super :: "Construct \<Rightarrow> string \<Rightarrow> StackProps option \<Rightarrow> Stack" where
  "Stack_super scope ident props =
     \<lparr>stack_scope = scope, stack_id = ident, stack_props = props, children = []\<rparr>"

text \<open>
  \<^verbatim>\<open>new X(this, id, props)\<close> appends the construct to the stack and returns a reference to
  it. These definitions describe the calls when they return; the constructor built from
  them, \<open>CdkStack_for\<close>, gives the properties every construct is created with. That a call
  may raise instead is the subject of \<open>CdkStack_lib\<close> below.
\<close>

definition addChild :: "Stack \<Rightarrow> string \<Rightarrow> construct \<Rightarrow> ref \<times> Stack" where
  "addChild this ident c = (ident, this\<lparr>children := children this @ [(ident, c)]\<rparr>)"

definition new_Bucket :: "Stack \<Rightarrow> string \<Rightarrow> BucketProps \<Rightarrow> ref \<times> Stack" where
  "new_Bucket this ident props = addChild this ident (Bucket props)"

definition new_DnsValidatedCertificate ::
  "Stack \<Rightarrow> string \<Rightarrow> DnsValidatedCertificateProps \<Rightarrow> ref \<times> Stack" where
  "new_DnsValidatedCertificate this ident props = addChild this ident (DnsValidatedCertificate props)"

definition new_Distribution :: "Stack \<Rightarrow> string \<Rightarrow> DistributionProps \<Rightarrow> ref \<times> Stack" where
  "new_Distribution this ident props = addChild this ident (Distribution props)"

definition new_ARecord :: "Stack \<Rightarrow> string \<Rightarrow> ARecordProps \<Rightarrow> ref \<times> Stack" where
  "new_ARecord this ident props = addChild this ident (ARecord props)"

text \<open>
  \<^verbatim>\<open>route53.HostedZone.fromLookup(this, id, {domainName})\<close> is a function of the
  \<^verbatim>\<open>aws-cdk-lib\<close> library: what it finds is decided outside the source. Its answer is the
  parameter \<open>lookup\<close>, from a domain name to the identity of the zone or to the error the
  call raises. An error leaves the stack as it was when the call was made.
\<close>

definition HostedZone_fromLookup ::
  "(string \<Rightarrow> error + string) \<Rightarrow> Stack \<Rightarrow> string \<Rightarrow> HostedZoneProviderProps
     \<Rightarrow> (error \<times> Stack) + (ref \<times> Stack)" where
  "HostedZone_fromLookup lookup this ident props =
     (case lookup (domainName props) of
        Inl e \<Rightarrow> Inl (e, this)
      | Inr zid \<Rightarrow>
          Inr (addChild this ident (HostedZone \<lparr>zoneName = domainName props, hostedZoneId = zid\<rparr>)))"

section \<open>The stack constructor\<close>

definition BASE_DOMAIN :: string where
  "BASE_DOMAIN = ''<YOUR_DOMAIN_HERE>''"

text \<open>
  The body of the constructor, with the module constant \<^verbatim>\<open>BASE_DOMAIN\<close> (a placeholder
  the deployer replaces by the domain) as the parameter \<open>base\<close>.
\<close>

definition CdkStack_for ::
  "string \<Rightarrow> (string \<Rightarrow> error + string) \<Rightarrow> Construct \<Rightarrow> string \<Rightarrow> StackProps option
     \<Rightarrow> (error \<times> Stack) + Stack" where
  "CdkStack_for base lookup scope ident props =
     (let this = Stack_super scope ident props;
          (bucket, this) = new_Bucket this ''website-bucket''
             \<lparr>encryption = Some S3_MANAGED, publicReadAccess = None,
              websiteIndexDocument = None, blockPublicAccess = None\<rparr>
      in case HostedZone_fromLookup lookup this ''hosted-zone'' \<lparr>domainName = base\<rparr> of
           Inl err \<Rightarrow> Inl err
         | Inr (hostedZone, this) \<Rightarrow>
             (let (certificate, this) = new_DnsValidatedCertificate this ''certificate''
                    \<lparr>cert_domainName = base, cert_hostedZone = hostedZone,
                     cert_region = Some ''us-east-1''\<rparr>;
                  (distribution, this) = new_Distribution this ''website-distribution''
                    \<lparr>defaultBehavior =
                       \<lparr>origin = S3Origin bucket,
                        viewerProtocolPolicy = Some REDIRECT_TO_HTTPS\<rparr>,
                     domainNames = Some [base],
                     defaultRootObject = Some ''index.html'',
                     certificate = Some certificate\<rparr>;
                  (DNSRecord, this) = new_ARecord this ''DNSRecord''
                    \<lparr>zone = hostedZone, recordName = Some base,
                     target = fromAlias (CloudFrontTarget distribution)\<rparr>
              in Inr this))"

definition CdkStack ::
  "(string \<Rightarrow> error + string) \<Rightarrow> Construct \<Rightarrow> string \<Rightarrow> StackProps option
     \<Rightarrow> (error \<times> Stack) + Stack" where
  "CdkStack = CdkStack_for BASE_DOMAIN"

section \<open>Reading a stack\<close>

text \<open>The stack a run leaves behind, whether it returned or raised.\<close>

fun stack_of :: "(error \<times> Stack) + Stack \<Rightarrow> Stack" where
  "stack_of (Inl (e, this)) = this"
| "stack_of (Inr this) = this"

definition node :: "Stack \<Rightarrow> ref \<Rightarrow> construct option" where
  "node this r = map_of (children this) r"


definition zones :: "Stack \<Rightarrow> HostedZoneRef list" where
  "zones this = [z. (i, HostedZone z) \<leftarrow> children this]"

definition certificates :: "Stack \<Rightarrow> DnsValidatedCertificateProps list" where
  "certificates this = [p. (i, DnsValidatedCertificate p) \<leftarrow> children this]"

definition distributions :: "Stack \<Rightarrow> DistributionProps list" where
  "distributions this = [p. (i, Distribution p) \<leftarrow> children this]"

definition records :: "Stack \<Rightarrow> ARecordProps list" where
  "records this = [p. (i, ARecord p) \<leftarrow> children this]"

text \<open>The aliases of a distribution: \<^verbatim>\<open>domainNames\<close>, none when the property is absent.\<close>

definition aliases :: "DistributionProps \<Rightarrow> string list" where
  "aliases p = (case domainNames p of None \<Rightarrow> [] | Some ds \<Rightarrow> ds)"

text \<open>
  A distribution's certificate covers a domain when its \<^verbatim>\<open>certificate\<close> property is set
  and refers to a certificate construct of the stack issued for that domain.
\<close>

definition certificate_covers :: "Stack \<Rightarrow> DistributionProps \<Rightarrow> string \<Rightarrow> bool" where
  "certificate_covers this p d =
     (case certificate p of
        None \<Rightarrow> False
      | Some c \<Rightarrow>
          (case node this c of
             Some (DnsValidatedCertificate cp) \<Rightarrow> cert_domainName cp = d
           | _ \<Rightarrow> False))"

text \<open>The references a construct holds to other constructs, in the order of its properties.\<close>

fun origin_ref :: "Origin \<Rightarrow> ref" where
  "origin_ref (S3Origin b) = b"

fun target_ref :: "RecordTarget \<Rightarrow> ref" where
  "target_ref (fromAlias (CloudFrontTarget d)) = d"

fun refs_of :: "construct \<Rightarrow> ref list" where
  "refs_of (Bucket p) = []"
| "refs_of (HostedZone z) = []"
| "refs_of (DnsValidatedCertificate p) = [cert_hostedZone p]"
| "refs_of (Distribution p) =
     origin_ref (origin (defaultBehavior p)) #
       (case certificate p of None \<Rightarrow> [] | Some c \<Rightarrow> [c])"
| "refs_of (ARecord p) = [zone p, target_ref (target p)]"

datatype kind = OriginStore | ZoneResolver | Certificate | EdgeDistribution | AliasRecord

fun kind_of :: "construct \<Rightarrow> kind" where
  "kind_of (Bucket p) = OriginStore"
| "kind_of (HostedZone z) = ZoneResolver"
| "kind_of (DnsValidatedCertificate p) = Certificate"
| "kind_of (Distribution p) = EdgeDistribution"
| "kind_of (ARecord p) = AliasRecord"

text \<open>For every child of the stack: its kind and the kinds of the constructs it refers to.\<close>

definition dependencies :: "Stack \<Rightarrow> (kind \<times> kind option list) list" where
  "dependencies this =
     map (\<lambda>(i, c). (kind_of c, map (\<lambda>r. map_option kind_of (node this r)) (refs_of c)))
       (children this)"

text \<open>The reference edges between construct ids, from the construct referred to to the one referring.\<close>

definition edges :: "Stack \<Rightarrow> (ref \<times> ref) list" where
  "edges this = concat (map (\<lambda>(i, c). map (\<lambda>r. (r, i)) (refs_of c)) (children this))"

text \<open>
  Modelled from the spec: the set of DNS zones of the target account is not part of the
  source. A registry lists the zones by domain name; a lookup against it resolves the
  zone's identity, or fails with \<open>ZoneNotFound\<close> when no zone is registered for the name.
\<close>

definition registry_lookup :: "(string \<times> string) list \<Rightarrow> string \<Rightarrow> error + string" where
  "registry_lookup reg d = (case map_of reg d of None \<Rightarrow> Inl ZoneNotFound | Some z \<Rightarrow> Inr z)"

text \<open>The aliases of the distribution an alias record points at.\<close>

definition target_aliases :: "Stack \<Rightarrow> ARecordProps \<Rightarrow> string list" where
  "target_aliases this r =
     (case node this (target_ref (target r)) of
        Some (Distribution p) \<Rightarrow> aliases p
      | _ \<Rightarrow> [])"

section \<open>Library calls that raise\<close>

text \<open>
  Every call of the constructor goes into \<^verbatim>\<open>aws-cdk-lib\<close>, and each of them may raise
  instead of returning. What a call decides is outside the source, so it is a field of the
  parameter \<open>lib\<close>: for \<^verbatim>\<open>super\<close> and for each \<^verbatim>\<open>new\<close>, the error it raises on its
  arguments, if any; for the zone lookup, the error it raises or the zone identity it
  returns. Every call after \<^verbatim>\<open>super\<close> sees the stack as it is when the call is made.
  \<^verbatim>\<open>S3Origin\<close>, \<^verbatim>\<open>CloudFrontTarget\<close> and \<^verbatim>\<open>fromAlias\<close> are evaluated while the props of
  the distribution and of the record are built, on the same stack as the call that takes
  them, so an error of theirs counts as an error of that call.
\<close>

record library =
  lib_super :: "Construct \<Rightarrow> string \<Rightarrow> StackProps option \<Rightarrow> error option"
  lib_Bucket :: "Stack \<Rightarrow> string \<Rightarrow> BucketProps \<Rightarrow> error option"
  lib_fromLookup :: "Stack \<Rightarrow> string \<Rightarrow> HostedZoneProviderProps \<Rightarrow> error + string"
  lib_DnsValidatedCertificate ::
    "Stack \<Rightarrow> string \<Rightarrow> DnsValidatedCertificateProps \<Rightarrow> error option"
  lib_Distribution :: "Stack \<Rightarrow> string \<Rightarrow> DistributionProps \<Rightarrow> error option"
  lib_ARecord :: "Stack \<Rightarrow> string \<Rightarrow> ARecordProps \<Rightarrow> error option"

text \<open>A \<^verbatim>\<open>new\<close> that may raise: the error and the stack unchanged, or the construct appended.\<close>

definition new_with ::
  "(Stack \<Rightarrow> string \<Rightarrow> 'p \<Rightarrow> error option) \<Rightarrow> ('p \<Rightarrow> construct) \<Rightarrow> Stack \<Rightarrow> string \<Rightarrow> 'p
     \<Rightarrow> (error \<times> Stack) + (ref \<times> Stack)" where
  "new_with raises ctor this ident props =
     (case raises this ident props of
        Some e \<Rightarrow> Inl (e, this)
      | None \<Rightarrow> Inr (addChild this ident (ctor props)))"

definition fromLookup_with ::
  "library \<Rightarrow> Stack \<Rightarrow> string \<Rightarrow> HostedZoneProviderProps \<Rightarrow> (error \<times> Stack) + (ref \<times> Stack)" where
  "fromLookup_with lib this ident props =
     (case lib_fromLookup lib this ident props of
        Inl e \<Rightarrow> Inl (e, this)
      | Inr zid \<Rightarrow>
          Inr (addChild this ident
                 (HostedZone \<lparr>zoneName = domainName props, hostedZoneId = zid\<rparr>)))"

text \<open>
  The constructor over such a library, statement by statement as in the source. An error
  ends the run with the stack as the failing call found it; when \<^verbatim>\<open>super\<close> raises,
  nothing has been created and that stack has no children.
\<close>

definition CdkStack_lib ::
  "library \<Rightarrow> string \<Rightarrow> Construct \<Rightarrow> string \<Rightarrow> StackProps option \<Rightarrow> (error \<times> Stack) + Stack" where
  "CdkStack_lib lib base scope ident props =
     (case lib_super lib scope ident props of
        Some e \<Rightarrow> Inl (e, Stack_super scope ident props)
      | None \<Rightarrow>
     (case new_with (lib_Bucket lib) Bucket (Stack_super scope ident props) ''website-bucket''
             \<lparr>encryption = Some S3_MANAGED, publicReadAccess = None,
              websiteIndexDocument = None, blockPublicAccess = None\<rparr> of
        Inl err \<Rightarrow> Inl err
      | Inr (bucket, this) \<Rightarrow>
     (case fromLookup_with lib this ''hosted-zone'' \<lparr>domainName = base\<rparr> of
        Inl err \<Rightarrow> Inl err
      | Inr (hostedZone, this) \<Rightarrow>
     (case new_with (lib_DnsValidatedCertificate lib) DnsValidatedCertificate this
             ''certificate''
             \<lparr>cert_domainName = base, cert_hostedZone = hostedZone,
              cert_region = Some ''us-east-1''\<rparr> of
        Inl err \<Rightarrow> Inl err
      | Inr created \<Rightarrow>
     (let (certificate, this) = created in
      case new_with (lib_Distribution lib) Distribution this ''website-distribution''
             \<lparr>defaultBehavior =
                \<lparr>origin = S3Origin bucket,
                 viewerProtocolPolicy = Some REDIRECT_TO_HTTPS\<rparr>,
              domainNames = Some [base],
              defaultRootObject = Some ''index.html'',
              certificate = Some certificate\<rparr> of
        Inl err \<Rightarrow> Inl err
      | Inr (distribution, this) \<Rightarrow>
     (case new_with (lib_ARecord lib) ARecord this ''DNSRecord''
             \<lparr>zone = hostedZone, recordName = Some base,
              target = fromAlias (CloudFrontTarget distribution)\<rparr> of
        Inl err \<Rightarrow> Inl err
      | Inr (DNSRecord, this) \<Rightarrow> Inr this))))))"

text \<open>
  A library in which no constructor raises and the lookup depends on the domain name
  alone: over it, \<open>CdkStack_lib\<close> is \<open>CdkStack_for\<close>.
\<close>

definition returning_library :: "(string \<Rightarrow> error + string) \<Rightarrow> library" where
  "returning_library lookup =
     \<lparr>lib_super = (\<lambda>scope ident props. None),
      lib_Bucket = (\<lambda>this ident props. None),
      lib_fromLookup = (\<lambda>this ident props. lookup (domainName props)),
      lib_DnsValidatedCertificate = (\<lambda>this ident props. None),
      lib_Distribution = (\<lambda>this ident props. None),
      lib_ARecord = (\<lambda>this ident props. None)\<rparr>"

text \<open>
  A library whose zone lookup behaves as that of \<^verbatim>\<open>aws-cdk-lib\<close> does while the stack is
  constructed. The lookup needs the account and the region of the stack (the article kept
  with the source tells the deployer to set \<^verbatim>\<open>env\<close> for it) and raises without them.
  With them it returns: the identity of the zone when the zone is among the known ones,
  a placeholder otherwise. The other calls of this library return.
\<close>

definition env_given :: "Stack \<Rightarrow> bool" where
  "env_given this =
     (case stack_props this of
        None \<Rightarrow> False
      | Some sp \<Rightarrow>
          (case env sp of
             None \<Rightarrow> False
           | Some e \<Rightarrow> account e \<noteq> None \<and> region e \<noteq> None))"

definition synth_library :: "(string \<times> string) list \<Rightarrow> library" where
  "synth_library known =
     \<lparr>lib_super = (\<lambda>scope ident props. None),
      lib_Bucket = (\<lambda>this ident props. None),
      lib_fromLookup = (\<lambda>this ident props.
         if env_given this
         then Inr (case map_of known (domainName props) of None \<Rightarrow> ''DUMMY'' | Some z \<Rightarrow> z)
         else Inl (LibraryError ''account/region are not specified at the stack level'')),
      lib_DnsValidatedCertificate = (\<lambda>this ident props. None),
      lib_Distribution = (\<lambda>this ident props. None),
      lib_ARecord = (\<lambda>this ident props. None)\<rparr>"

text \<open>Props that name an account and a region, as the article's \<^verbatim>\<open>env\<close> line does.\<close>

definition env_props :: "StackProps option" where
  "env_props =
     Some \<lparr>env = Some \<lparr>account = Some ''123456789012'', region = Some ''eu-west-1''\<rparr>,
           stackName = None\<rparr>"

section \<open>What a run of the constructor leaves behind\<close>

definition bucket_props :: BucketProps where
  "bucket_props =
     \<lparr>encryption = Some S3_MANAGED, publicReadAccess = None,
      websiteIndexDocument = None, blockPublicAccess = None\<rparr>"

lemma CdkStack_for_failed:
  assumes "lookup base = Inl e"
  shows "CdkStack_for base lookup scope ident props =
           Inl (e, \<lparr>stack_scope = scope, stack_id = ident, stack_props = props,
                    children = [(''website-bucket'', Bucket bucket_props)]\<rparr>)"
  using assms
  by (simp add: CdkStack_for_def Stack_super_def new_Bucket_def addChild_def
      HostedZone_fromLookup_def bucket_props_def)

lemma CdkStack_for_found:
  assumes "lookup base = Inr zid"
  shows "CdkStack_for base lookup scope ident props =
           Inr \<lparr>stack_scope = scope, stack_id = ident, stack_props = props,
                children =
                  [(''website-bucket'', Bucket bucket_props),
                   (''hosted-zone'', HostedZone \<lparr>zoneName = base, hostedZoneId = zid\<rparr>),
                   (''certificate'', DnsValidatedCertificate
                      \<lparr>cert_domainName = base, cert_hostedZone = ''hosted-zone'',
                       cert_region = Some ''us-east-1''\<rparr>),
                   (''website-distribution'', Distribution
                      \<lparr>defaultBehavior =
                         \<lparr>origin = S3Origin ''website-bucket'',
                          viewerProtocolPolicy = Some REDIRECT_TO_HTTPS\<rparr>,
                       domainNames = Some [base],
                       defaultRootObject = Some ''index.html'',
                       certificate = Some ''certificate''\<rparr>),
                   (''DNSRecord'', ARecord
                      \<lparr>zone = ''hosted-zone'', recordName = Some base,
                       target = fromAlias (CloudFrontTarget ''website-distribution'')\<rparr>)]\<rparr>"
  using assms
  by (simp add: CdkStack_for_def Stack_super_def new_Bucket_def addChild_def
      HostedZone_fromLookup_def new_DnsValidatedCertificate_def new_Distribution_def
      new_ARecord_def bucket_props_def)

lemma registry_found:
  "registry_lookup [(''example.org'', ''Z1'')] ''example.org'' = Inr ''Z1''"
  by (simp add: registry_lookup_def)

lemma acyclic_by_rank:
  fixes f :: "'a \<Rightarrow> nat"
  assumes "\<forall>(a, b) \<in> E. f a < f b"
  shows "acyclic E"
proof -
  have "E \<subseteq> inv_image less_than f" using assms by auto
  moreover have "wf (inv_image less_than f)" by simp
  ultimately show ?thesis by (meson wf_subset wf_acyclic)
qed

section \<open>The certificate\<close>

text \<open>
  C1. Whatever the scope, id and props of the stack (and so whatever deployment region the
  props carry), and whatever zone the lookup resolved, a constructed stack holds one
  certificate and its region is the literal \<open>us-east-1\<close>.
\<close>

theorem certificate_region_fixed:
  assumes "CdkStack_for base lookup scope ident props = Inr this"
  shows "map cert_region (certificates this) = [Some ''us-east-1'']"
proof (cases "lookup base")
  case (Inl e)
  from CdkStack_for_failed [of lookup base e scope ident props, OF Inl] assms
  show ?thesis by simp
next
  case (Inr zid)
  from CdkStack_for_found [of lookup base zid scope ident props, OF Inr] assms
  show ?thesis by (auto simp add: certificates_def)
qed

theorem certificate_region_fixed_witness:
  "\<exists>this. CdkStack_for ''example.org'' (registry_lookup [(''example.org'', ''Z1'')]) Root
              ''CdkStack'' env_props = Inr this
         \<and> map cert_region (certificates this) = [Some ''us-east-1'']"
  using certificate_region_fixed
      [of "''example.org''" "registry_lookup [(''example.org'', ''Z1'')]" Root "''CdkStack''"
        env_props]
    CdkStack_for_found
      [of "registry_lookup [(''example.org'', ''Z1'')]" "''example.org''" "''Z1''",
        OF registry_found]
  by simp

section \<open>The distribution and its certificate\<close>

text \<open>
  C2. In the stack any run leaves behind, every distribution that lists a domain \<open>d\<close>
  among its aliases has its certificate property set, and the construct it refers to is
  a certificate issued for \<open>d\<close>. The first alternative of the claim always holds, so no
  run needs the failure of the second.
\<close>

theorem alias_has_certificate:
  assumes "p \<in> set (distributions (stack_of (CdkStack_for base lookup scope ident props)))"
    and "d \<in> set (aliases p)"
  shows "certificate_covers (stack_of (CdkStack_for base lookup scope ident props)) p d"
proof (cases "lookup base")
  case (Inl e)
  from CdkStack_for_failed [of lookup base e scope ident props, OF Inl] assms
  show ?thesis by (simp add: distributions_def)
next
  case (Inr zid)
  from CdkStack_for_found [of lookup base zid scope ident props, OF Inr] assms
  show ?thesis
    by (auto simp add: distributions_def aliases_def certificate_covers_def node_def)
qed

theorem alias_has_certificate_witness:
  "\<exists>p. p \<in> set (distributions (stack_of (CdkStack_for ''example.org''
             (registry_lookup [(''example.org'', ''Z1'')]) Root ''CdkStack'' env_props)))
       \<and> ''example.org'' \<in> set (aliases p)
       \<and> certificate_covers (stack_of (CdkStack_for ''example.org''
             (registry_lookup [(''example.org'', ''Z1'')]) Root ''CdkStack'' env_props))
           p ''example.org''"
proof -
  let ?p = "\<lparr>defaultBehavior =
              \<lparr>origin = S3Origin ''website-bucket'',
               viewerProtocolPolicy = Some REDIRECT_TO_HTTPS\<rparr>,
            domainNames = Some [''example.org''], defaultRootObject = Some ''index.html'',
            certificate = Some ''certificate''\<rparr>"
  note run = CdkStack_for_found
      [of "registry_lookup [(''example.org'', ''Z1'')]" "''example.org''" "''Z1''" Root
        "''CdkStack''" env_props, OF registry_found]
  have built: "?p \<in> set (distributions (stack_of (CdkStack_for ''example.org''
      (registry_lookup [(''example.org'', ''Z1'')]) Root ''CdkStack'' env_props)))"
    by (simp add: run distributions_def)
  have listed: "''example.org'' \<in> set (aliases ?p)"
    by (simp add: aliases_def)
  from alias_has_certificate [OF built listed] built listed show ?thesis by blast
qed

section \<open>The alias record\<close>

text \<open>
  C4. In the stack any run leaves behind, every alias record has a record name, and that
  name occurs exactly once among the aliases of the distribution the record points at.
  A record name outside the aliases cannot arise, so no run reaches the failure the claim
  asks for in that case.
\<close>

theorem record_name_is_one_alias:
  assumes "r \<in> set (records (stack_of (CdkStack_for base lookup scope ident props)))"
  shows "\<exists>n. recordName r = Some n
           \<and> count_list
               (target_aliases (stack_of (CdkStack_for base lookup scope ident props)) r) n = 1"
proof (cases "lookup base")
  case (Inl e)
  from CdkStack_for_failed [of lookup base e scope ident props, OF Inl] assms
  show ?thesis by (simp add: records_def)
next
  case (Inr zid)
  from CdkStack_for_found [of lookup base zid scope ident props, OF Inr] assms
  show ?thesis
    by (auto simp add: records_def target_aliases_def aliases_def node_def)
qed

theorem record_name_is_one_alias_witness:
  "\<exists>r. r \<in> set (records (stack_of (CdkStack_for ''example.org''
             (registry_lookup [(''example.org'', ''Z1'')]) Root ''CdkStack'' env_props)))
       \<and> recordName r = Some ''example.org''
       \<and> count_list
           (target_aliases (stack_of (CdkStack_for ''example.org''
              (registry_lookup [(''example.org'', ''Z1'')]) Root ''CdkStack'' env_props)) r)
           ''example.org'' = 1"
proof -
  let ?r = "\<lparr>zone = ''hosted-zone'', recordName = Some ''example.org'',
            target = fromAlias (CloudFrontTarget ''website-distribution'')\<rparr>"
  note run = CdkStack_for_found
      [of "registry_lookup [(''example.org'', ''Z1'')]" "''example.org''" "''Z1''" Root
        "''CdkStack''" env_props, OF registry_found]
  have built: "?r \<in> set (records (stack_of (CdkStack_for ''example.org''
      (registry_lookup [(''example.org'', ''Z1'')]) Root ''CdkStack'' env_props)))"
    by (simp add: run records_def)
  from record_name_is_one_alias [OF built] built show ?thesis by auto
qed

section \<open>The reference graph\<close>

text \<open>
  C5. The reference edges of the stack any run leaves behind are acyclic. In a constructed
  stack the bucket and the zone reference refer to nothing, the certificate refers to the
  zone reference only, the distribution to the bucket and the certificate only, and the
  alias record to the zone reference and the distribution only.
\<close>

theorem references_form_dag:
  "acyclic (set (edges (stack_of (CdkStack_for base lookup scope ident props))))
   \<and> (\<forall>this. CdkStack_for base lookup scope ident props = Inr this \<longrightarrow>
         dependencies this =
           [(OriginStore, []), (ZoneResolver, []), (Certificate, [Some ZoneResolver]),
            (EdgeDistribution, [Some OriginStore, Some Certificate]),
            (AliasRecord, [Some ZoneResolver, Some EdgeDistribution])])"
proof (cases "lookup base")
  case (Inl e)
  from CdkStack_for_failed [of lookup base e scope ident props, OF Inl] show ?thesis
    by (simp add: edges_def acyclic_def)
next
  case (Inr zid)
  let ?rank = "\<lambda>r. if r = ''certificate'' then (1::nat)
     else if r = ''website-distribution'' then 2
     else if r = ''DNSRecord'' then 3 else 0"
  note run = CdkStack_for_found [of lookup base zid scope ident props, OF Inr]
  have "acyclic (set (edges (stack_of (CdkStack_for base lookup scope ident props))))"
    by (rule acyclic_by_rank [where f = ?rank]) (simp add: run edges_def)
  moreover have "dependencies (stack_of (CdkStack_for base lookup scope ident props)) =
           [(OriginStore, []), (ZoneResolver, []), (Certificate, [Some ZoneResolver]),
            (EdgeDistribution, [Some OriginStore, Some Certificate]),
            (AliasRecord, [Some ZoneResolver, Some EdgeDistribution])]"
    by (simp add: run dependencies_def node_def)
  ultimately show ?thesis by auto
qed

theorem references_form_dag_witness:
  "\<exists>this. CdkStack_for ''example.org'' (registry_lookup [(''example.org'', ''Z1'')]) Root
              ''CdkStack'' env_props = Inr this
         \<and> acyclic (set (edges this))
         \<and> dependencies this =
             [(OriginStore, []), (ZoneResolver, []), (Certificate, [Some ZoneResolver]),
              (EdgeDistribution, [Some OriginStore, Some Certificate]),
              (AliasRecord, [Some ZoneResolver, Some EdgeDistribution])]"
  using references_form_dag
      [of "''example.org''" "registry_lookup [(''example.org'', ''Z1'')]" Root "''CdkStack''" env_props]
    CdkStack_for_found
      [of "registry_lookup [(''example.org'', ''Z1'')]" "''example.org''" "''Z1''" Root
        "''CdkStack''" env_props, OF registry_found]
  by simp

section \<open>The scenario of the domain example.org\<close>



section \<open>The bucket\<close>



section \<open>One domain throughout\<close>

text \<open>
  C9. In a constructed stack the zone reference, the certificate, the distribution's only
  alias and the alias record's name all carry the domain the constructor was run for;
  \<open>CdkStack\<close> runs it for the module constant \<open>BASE_DOMAIN\<close>.
\<close>

theorem one_domain_everywhere:
  assumes "CdkStack_for base lookup scope ident props = Inr this"
  shows "map zoneName (zones this) = [base]
       \<and> map cert_domainName (certificates this) = [base]
       \<and> map domainNames (distributions this) = [Some [base]]
       \<and> map recordName (records this) = [Some base]"
proof (cases "lookup base")
  case (Inl e)
  from CdkStack_for_failed [of lookup base e scope ident props, OF Inl] assms
  show ?thesis by simp
next
  case (Inr zid)
  from CdkStack_for_found [of lookup base zid scope ident props, OF Inr] assms
  show ?thesis
    by (auto simp add: zones_def certificates_def distributions_def records_def)
qed

theorem one_domain_everywhere_witness:
  "\<exists>this. CdkStack (registry_lookup [(BASE_DOMAIN, ''Z1'')]) Root ''CdkStack'' env_props = Inr this
         \<and> map zoneName (zones this) = [BASE_DOMAIN]
         \<and> map cert_domainName (certificates this) = [BASE_DOMAIN]
         \<and> map domainNames (distributions this) = [Some [BASE_DOMAIN]]
         \<and> map recordName (records this) = [Some BASE_DOMAIN]"
proof -
  have found: "registry_lookup [(BASE_DOMAIN, ''Z1'')] BASE_DOMAIN = Inr ''Z1''"
    by (simp add: registry_lookup_def)
  from CdkStack_for_found [of "registry_lookup [(BASE_DOMAIN, ''Z1'')]" BASE_DOMAIN "''Z1''"
      Root "''CdkStack''" env_props, OF found]
  obtain this where
    run: "CdkStack_for BASE_DOMAIN (registry_lookup [(BASE_DOMAIN, ''Z1'')]) Root ''CdkStack''
            env_props = Inr this"
    by blast
  from one_domain_everywhere [OF run] run show ?thesis
    by (simp add: CdkStack_def)
qed

section \<open>When a library call raises\<close>

lemma CdkStack_lib_returning:
  "CdkStack_lib (returning_library lookup) base scope ident props =
     CdkStack_for base lookup scope ident props"
  by (simp add: CdkStack_lib_def new_with_def fromLookup_with_def addChild_def
      Stack_super_def returning_library_def CdkStack_for_def new_Bucket_def
      HostedZone_fromLookup_def new_DnsValidatedCertificate_def new_Distribution_def
      new_ARecord_def split: sum.splits)




text \<open>
  C3, as the source has it. The source has no check for a missing zone. It creates the
  bucket, then calls the zone lookup on the stack that holds the bucket. When that call
  raises an error, whatever the error is, the constructor fails with it, and the stack
  holds the Origin Store and nothing else: no zone reference, certificate, distribution or
  alias record has been created.
\<close>

theorem lookup_error_after_bucket:
  assumes "lib_super lib scope ident props = None"
    and "lib_Bucket lib (Stack_super scope ident props) ''website-bucket'' bucket_props = None"
    and "lib_fromLookup lib
           (snd (new_Bucket (Stack_super scope ident props) ''website-bucket'' bucket_props))
           ''hosted-zone'' \<lparr>domainName = base\<rparr> = Inl e"
  shows "\<exists>this. CdkStack_lib lib base scope ident props = Inl (e, this)
           \<and> map (kind_of \<circ> snd) (children this) = [OriginStore]"
  using assms
  by (simp add: CdkStack_lib_def new_with_def fromLookup_with_def new_Bucket_def addChild_def
      Stack_super_def bucket_props_def)

theorem lookup_error_after_bucket_witness:
  "\<exists>this. CdkStack_lib (synth_library []) ''example.org'' Root ''CdkStack''
              (Some \<lparr>env = None, stackName = Some ''website''\<rparr>) =
              Inl (LibraryError ''account/region are not specified at the stack level'', this)
         \<and> map (kind_of \<circ> snd) (children this) = [OriginStore]"
proof -
  let ?props = "Some \<lparr>env = None, stackName = Some ''website''\<rparr>"
  have super: "lib_super (synth_library []) Root ''CdkStack'' ?props = None"
    by (simp add: synth_library_def)
  have bucket: "lib_Bucket (synth_library []) (Stack_super Root ''CdkStack'' ?props)
                  ''website-bucket'' bucket_props = None"
    by (simp add: synth_library_def)
  have raised: "lib_fromLookup (synth_library [])
                  (snd (new_Bucket (Stack_super Root ''CdkStack'' ?props) ''website-bucket''
                     bucket_props))
                  ''hosted-zone'' \<lparr>domainName = ''example.org''\<rparr> =
                Inl (LibraryError ''account/region are not specified at the stack level'')"
    by (simp add: synth_library_def env_given_def new_Bucket_def addChild_def Stack_super_def)
  from lookup_error_after_bucket [OF super bucket raised] show ?thesis .
qed

text \<open>
  The claim as stated fails for the domain \<open>example.org\<close> with no zone known and the
  account and region given: the lookup returns a placeholder, the run does not fail, and
  all five constructs are created.
\<close>

theorem zone_missing_all_built:
  "CdkStack_lib (synth_library []) ''example.org'' Root ''CdkStack'' env_props =
     Inr \<lparr>stack_scope = Root, stack_id = ''CdkStack'', stack_props = env_props,
          children =
            [(''website-bucket'', Bucket
                \<lparr>encryption = Some S3_MANAGED, publicReadAccess = None,
                 websiteIndexDocument = None, blockPublicAccess = None\<rparr>),
             (''hosted-zone'', HostedZone \<lparr>zoneName = ''example.org'', hostedZoneId = ''DUMMY''\<rparr>),
             (''certificate'', DnsValidatedCertificate
                \<lparr>cert_domainName = ''example.org'', cert_hostedZone = ''hosted-zone'',
                 cert_region = Some ''us-east-1''\<rparr>),
             (''website-distribution'', Distribution
                \<lparr>defaultBehavior =
                   \<lparr>origin = S3Origin ''website-bucket'',
                    viewerProtocolPolicy = Some REDIRECT_TO_HTTPS\<rparr>,
                 domainNames = Some [''example.org''],
                 defaultRootObject = Some ''index.html'',
                 certificate = Some ''certificate''\<rparr>),
             (''DNSRecord'', ARecord
                \<lparr>zone = ''hosted-zone'', recordName = Some ''example.org'',
                 target = fromAlias (CloudFrontTarget ''website-distribution'')\<rparr>)]\<rparr>"
  by (simp add: CdkStack_lib_def new_with_def fromLookup_with_def addChild_def Stack_super_def
      synth_library_def env_given_def env_props_def)




end
